theory Spec2Isabelle
  imports Complex_Main
begin

section \<open>Capacity exhaustion forecasting (src/src/feature2/feature2.py)\<close>

text \<open>
  The forecasting core computes on numpy float64 values. They are embedded as
  \<^typ>\<open>real\<close>: every comparison and every arithmetic step is the one the source
  writes, taken over the real numbers. The thresholds read from the configuration
  file (\<open>CONFIG['feature2'][...]\<close>) are parameters of the functions that use them.
\<close>

subsection \<open>Confidence classification (analyze_repository, lines 705-715)\<close>

datatype confidence_level = HIGH | MODERATE | LOW

text \<open>
  \<open>r_high\<close>, \<open>r_moderate\<close> and \<open>min_days\<close> are \<open>R_SQUARED_HIGH\<close>,
  \<open>R_SQUARED_MODERATE\<close> and \<open>MIN_DAYS\<close>; \<open>n\<close> is \<open>len(x)\<close>.
\<close>

definition confidence_classification ::
  "real \<Rightarrow> real \<Rightarrow> nat \<Rightarrow> real \<Rightarrow> nat \<Rightarrow> confidence_level \<times> real" where
  "confidence_classification r_high r_moderate min_days r_squared n =
     (if r_squared \<ge> r_high \<and> n \<ge> 21 then (HIGH, 1.0)
      else if r_squared \<ge> r_moderate \<and> n \<ge> min_days then (MODERATE, 0.8)
      else (LOW, 0.5))"

subsection \<open>Threshold solver (PolynomialForecaster.solve_for_threshold)\<close>

text \<open>Python's \<open>int(v)\<close> on a float truncates toward zero.\<close>

definition py_int :: "real \<Rightarrow> int" where
  "py_int v = (if v \<ge> 0 then \<lfloor>v\<rfloor> else \<lceil>v\<rceil>)"

definition polyval :: "real \<times> real \<times> real \<Rightarrow> real \<Rightarrow> real" where
  "polyval coeffs x = (case coeffs of (a, b, c) \<Rightarrow> a * x\<^sup>2 + b * x + c)"

definition solve_for_threshold :: "real \<times> real \<times> real \<Rightarrow> real \<Rightarrow> int \<Rightarrow> int option" where
  "solve_for_threshold coeffs threshold current_day =
     (case coeffs of (a, b, c) \<Rightarrow>
        let c_adj = c - threshold in
        if \<bar>a\<bar> < 1 / 10 ^ 6 then
          (if \<bar>b\<bar> < 1 / 10 ^ 6 then None
           else
             let x = - c_adj / b in
             if b < 0 then None
             else
               let days_from_now = x - real_of_int current_day in
               if days_from_now > 0 then Some (py_int days_from_now) else None)
        else
          let discriminant = b\<^sup>2 - 4 * a * c_adj in
          if discriminant < 0 then None
          else
            let sqrt_disc = sqrt discriminant;
                x1 = (- b + sqrt_disc) / (2 * a);
                x2 = (- b - sqrt_disc) / (2 * a);
                solutions = [x1, x2];
                valid_solutions = filter (\<lambda>x. x > real_of_int current_day) solutions
            in
              if valid_solutions = [] then None
              else
                let x_solution = Min (set valid_solutions);
                    days_from_now = x_solution - real_of_int current_day
                in if days_from_now > 0 then Some (py_int days_from_now) else None)"

subsection \<open>Priority classification (analyze_repository, lines 717-725)\<close>

datatype priority = URGENT | PRIO_HIGH | MEDIUM | PRIO_LOW

text \<open>
  A Python condition \<open>days_to_80 and days_to_80 < t\<close> is true when \<open>days_to_80\<close>
  is truthy (neither \<open>None\<close> nor \<open>0\<close>) and below \<open>t\<close>.
\<close>

definition truthy :: "int option \<Rightarrow> bool" where
  "truthy d = (case d of None \<Rightarrow> False | Some k \<Rightarrow> k \<noteq> 0)"

definition priority_classification :: "int \<Rightarrow> int \<Rightarrow> int \<Rightarrow> int option \<Rightarrow> priority" where
  "priority_classification urgent_days high_days medium_days days_to_80 =
     (if truthy days_to_80 \<and> the days_to_80 < urgent_days then URGENT
      else if truthy days_to_80 \<and> the days_to_80 < high_days then PRIO_HIGH
      else if truthy days_to_80 \<and> the days_to_80 < medium_days then MEDIUM
      else PRIO_LOW)"

subsection \<open>Errors and numpy primitives\<close>

text \<open>
  \<open>np.mean\<close> is the arithmetic mean and \<open>np.std\<close> the population standard
  deviation \<open>sqrt(mean(|v - mean|\<^sup>2))\<close>. Indexing an array with a boolean array
  keeps the elements at the true positions and raises \<open>IndexError\<close> when the
  lengths differ.
\<close>

datatype py_error = TypeError | IndexError | ValueError | LinAlgError

definition np_mean :: "real list \<Rightarrow> real" where
  "np_mean xs = sum_list xs / real (length xs)"

definition np_std :: "real list \<Rightarrow> real" where
  "np_std xs = sqrt (np_mean (map (\<lambda>v. \<bar>v - np_mean xs\<bar>\<^sup>2) xs))"

definition select_mask :: "'a list \<Rightarrow> bool list \<Rightarrow> 'a list" where
  "select_mask xs flags = map fst (filter snd (zip xs flags))"

definition np_bool_index :: "'a list \<Rightarrow> bool list \<Rightarrow> py_error + 'a list" where
  "np_bool_index xs flags =
     (if length flags \<noteq> length xs then Inl IndexError else Inr (select_mask xs flags))"

subsection \<open>Outlier removal (DataPreprocessor.remove_outliers, analyze_repository lines 636-642)\<close>

definition remove_outliers :: "real list \<Rightarrow> real \<Rightarrow> real list \<times> nat" where
  "remove_outliers data threshold =
     (if length data < 3 then (data, 0)
      else
        let mean = np_mean data;
            std = np_std data
        in
          if std = 0 then (data, 0)
          else
            let outliers = map (\<lambda>v. \<bar>v - mean\<bar> > threshold * std) data;
                outlier_count = length (filter id outliers)
            in
              if outlier_count > 0
              then (select_mask data (map Not outliers), outlier_count)
              else (data, 0))"

definition remove_outliers_step ::
  "real \<Rightarrow> int list \<Rightarrow> real list \<Rightarrow> py_error + (int list \<times> real list \<times> nat)" where
  "remove_outliers_step outlier_threshold x y =
     (case remove_outliers y outlier_threshold of (y_clean, outliers_removed) \<Rightarrow>
        if outliers_removed > 0 then
          let outlier_mask = map (\<lambda>v. \<bar>v - np_mean y\<bar> \<le> outlier_threshold * np_std y) y in
          (case np_bool_index x outlier_mask of
             Inl e \<Rightarrow> Inl e
           | Inr x' \<Rightarrow> Inr (x', y_clean, outliers_removed))
        else Inr (x, y, outliers_removed))"

subsection \<open>Deduplication trend (DedupAnalyzer.analyze_dedup_trend)\<close>

text \<open>
  The four leading parameters are \<open>DEDUP_IMPROVING_THRESHOLD\<close>,
  \<open>DEDUP_DEGRADING_THRESHOLD\<close>, \<open>DEDUP_IMPROVING_ADJUSTMENT\<close> and
  \<open>DEDUP_DEGRADING_ADJUSTMENT\<close>.
\<close>

datatype dedup_trend = UNKNOWN | IMPROVING | DEGRADING | STABLE

definition analyze_dedup_trend ::
  "real \<Rightarrow> real \<Rightarrow> real \<Rightarrow> real \<Rightarrow> real list \<Rightarrow> dedup_trend \<times> real" where
  "analyze_dedup_trend improving_threshold degrading_threshold
       improving_adjustment degrading_adjustment dedup_ratios =
     (if length dedup_ratios < 10 then (UNKNOWN, 1.0)
      else
        let mid = length dedup_ratios div 2;
            first_half = take mid dedup_ratios;
            second_half = drop mid dedup_ratios;
            first_avg = np_mean first_half;
            second_avg = np_mean second_half;
            diff = second_avg - first_avg
        in
          if diff > improving_threshold then (IMPROVING, improving_adjustment)
          else if diff < degrading_threshold then (DEGRADING, degrading_adjustment)
          else (STABLE, 1.0))"

subsection \<open>Gap interpolation (DataPreprocessor.interpolate_gaps)\<close>

text \<open>
  The capacity column of \<open>df_daily\<close>, after \<open>resample('D').asfreq()\<close>, is a list
  with one entry per calendar day, \<open>None\<close> for a day without a measurement (NaN).
  \<open>Series.interpolate(method='linear', limit=L, limit_direction='both')\<close> is the
  pandas library call: it raises \<open>ValueError\<close> for \<open>L < 1\<close>; a missing day is
  filled when it lies within \<open>L\<close> positions after the previous valid entry or
  within \<open>L\<close> positions before the next valid entry; the value is linear in the
  position between the two valid neighbours, and the nearest valid value where only
  one side has one. \<open>nearest_valid\<close> gives the distance to and the value of the
  first valid entry of a list.
\<close>

fun nearest_valid :: "real option list \<Rightarrow> (nat \<times> real) option" where
  "nearest_valid [] = None"
| "nearest_valid (Some v # rest) = Some (1, v)"
| "nearest_valid (None # rest) = map_option (\<lambda>(k, v). (Suc k, v)) (nearest_valid rest)"

definition interpolate_at :: "int \<Rightarrow> real option list \<Rightarrow> nat \<Rightarrow> real option" where
  "interpolate_at limit col i =
     (case col ! i of
        Some v \<Rightarrow> Some v
      | None \<Rightarrow>
          (case (nearest_valid (rev (take i col)), nearest_valid (drop (Suc i) col)) of
             (None, None) \<Rightarrow> None
           | (Some (p, u), None) \<Rightarrow> if int p \<le> limit then Some u else None
           | (None, Some (q, w)) \<Rightarrow> if int q \<le> limit then Some w else None
           | (Some (p, u), Some (q, w)) \<Rightarrow>
               if int p \<le> limit \<or> int q \<le> limit
               then Some (u + (w - u) * real p / real (p + q))
               else None))"

definition pd_interpolate :: "int \<Rightarrow> real option list \<Rightarrow> py_error + real option list" where
  "pd_interpolate limit col =
     (if limit < 1 then Inl ValueError
      else Inr (map (interpolate_at limit col) [0..<length col]))"

definition isna_sum :: "real option list \<Rightarrow> int" where
  "isna_sum col = int (length (filter (\<lambda>v. v = None) col))"

definition interpolate_gaps ::
  "real option list \<Rightarrow> int \<Rightarrow> py_error + (real option list \<times> int)" where
  "interpolate_gaps capacity_gb max_gap_days =
     (if capacity_gb = [] then Inr (capacity_gb, 0)
      else
        let gaps_before = isna_sum capacity_gb in
        (case pd_interpolate max_gap_days capacity_gb of
           Inl e \<Rightarrow> Inl e
         | Inr filled \<Rightarrow>
             let gaps_after = isna_sum filled;
                 interpolated_count = gaps_before - gaps_after
             in Inr (filled, interpolated_count)))"

definition dropna :: "real option list \<Rightarrow> real list" where
  "dropna col = map the (filter (\<lambda>v. v \<noteq> None) col)"

subsection \<open>Model fitting (PolynomialForecaster.fit_model)\<close>

text \<open>
  numpy divides a float by zero without raising: the result is an infinity or NaN.
  The values that can be non-finite in \<open>fit_model\<close> (\<open>mse\<close>, \<open>se_a\<close>, \<open>t_stat\<close>,
  \<open>p_value\<close>) are of type \<open>np_float\<close>; a comparison with NaN is false.
\<close>

datatype np_float = Fin real | PosInf | NegInf | NaN

definition np_true_divide :: "real \<Rightarrow> int \<Rightarrow> np_float" where
  "np_true_divide s d =
     (if d \<noteq> 0 then Fin (s / real_of_int d)
      else if s > 0 then PosInf else if s < 0 then NegInf else NaN)"

fun np_multiply :: "np_float \<Rightarrow> real \<Rightarrow> np_float" where
  "np_multiply (Fin m) r = Fin (m * r)"
| "np_multiply PosInf r = (if r > 0 then PosInf else if r < 0 then NegInf else NaN)"
| "np_multiply NegInf r = (if r > 0 then NegInf else if r < 0 then PosInf else NaN)"
| "np_multiply NaN r = NaN"

fun np_sqrt :: "np_float \<Rightarrow> np_float" where
  "np_sqrt (Fin v) = (if v < 0 then NaN else Fin (sqrt v))"
| "np_sqrt PosInf = PosInf"
| "np_sqrt NegInf = NaN"
| "np_sqrt NaN = NaN"

fun np_less :: "np_float \<Rightarrow> real \<Rightarrow> bool" where
  "np_less (Fin v) r = (v < r)"
| "np_less PosInf r = False"
| "np_less NegInf r = True"
| "np_less NaN r = False"

fun np_greater :: "np_float \<Rightarrow> real \<Rightarrow> bool" where
  "np_greater (Fin v) r = (v > r)"
| "np_greater PosInf r = True"
| "np_greater NegInf r = False"
| "np_greater NaN r = False"

fun np_abs_ratio :: "real \<Rightarrow> np_float \<Rightarrow> np_float" where
  "np_abs_ratio a (Fin s) =
     (if s \<noteq> 0 then Fin \<bar>a / s\<bar> else if a \<noteq> 0 then PosInf else NaN)"
| "np_abs_ratio a PosInf = Fin 0"
| "np_abs_ratio a NegInf = Fin 0"
| "np_abs_ratio a NaN = NaN"

text \<open>
  \<open>X.T @ X\<close> for the design matrix with columns \<open>x\<^sup>2\<close>, \<open>x\<close>, \<open>1\<close>, and the
  determinant of a 3 by 3 matrix.
\<close>

type_synonym mat3 = "(real \<times> real \<times> real) \<times> (real \<times> real \<times> real) \<times> (real \<times> real \<times> real)"

definition XtX :: "real list \<Rightarrow> mat3" where
  "XtX x =
     (let s4 = sum_list (map (\<lambda>v. v\<^sup>2 * v\<^sup>2) x);
          s3 = sum_list (map (\<lambda>v. v\<^sup>2 * v) x);
          s2 = sum_list (map (\<lambda>v. v\<^sup>2) x);
          s1 = sum_list x;
          s0 = real (length x)
      in ((s4, s3, s2), (s3, s2, s1), (s2, s1, s0)))"

definition det3 :: "mat3 \<Rightarrow> real" where
  "det3 m = (case m of ((m00, m01, m02), (m10, m11, m12), (m20, m21, m22)) \<Rightarrow>
      m00 * (m11 * m22 - m12 * m21) - m01 * (m10 * m22 - m12 * m20)
        + m02 * (m10 * m21 - m11 * m20))"

text \<open>
  \<open>np.polyfit(x, y, deg=1)\<close>, \<open>np.polyfit(x, y, deg=2)\<close>, \<open>np.linalg.inv\<close> and
  \<open>stats.t.sf\<close> are library functions, passed as \<open>polyfit1\<close>, \<open>polyfit2\<close>,
  \<open>linalg_inv\<close> and \<open>t_sf\<close>. \<open>np.polyfit\<close> raises \<open>TypeError\<close> for an empty \<open>x\<close>
  and for \<open>x\<close> and \<open>y\<close> of different lengths. \<open>np.linalg.inv\<close> either returns a
  matrix or raises \<open>LinAlgError\<close>; it raises when the elimination meets a pivot that
  is exactly zero, which in floating point a singular matrix need not produce, so
  whether it raises is left to the parameter. \<open>p_value_threshold\<close> is
  \<open>P_VALUE_THRESHOLD\<close>. The bare \<open>except\<close> turns an exception of the \<open>try\<close>
  block into \<open>p_value = 1.0\<close>.
\<close>

datatype model_type = QUADRATIC | LINEAR

record fit_result =
  coeffs :: "real \<times> real \<times> real"
  model_type :: model_type
  r_squared :: real
  p_value :: np_float
  mse :: np_float

definition fit_model ::
  "(real list \<Rightarrow> real list \<Rightarrow> real \<times> real) \<Rightarrow>
   (real list \<Rightarrow> real list \<Rightarrow> real \<times> real \<times> real) \<Rightarrow>
   (mat3 \<Rightarrow> py_error + mat3) \<Rightarrow>
   (np_float \<Rightarrow> int \<Rightarrow> np_float) \<Rightarrow> real \<Rightarrow>
   real list \<Rightarrow> real list \<Rightarrow> py_error + fit_result" where
  "fit_model polyfit1 polyfit2 linalg_inv t_sf p_value_threshold x y =
     (if x = [] \<or> length x \<noteq> length y then Inl TypeError
      else
        let n = int (length x);
            coeffs_linear = polyfit1 x y;
            coeffs_quad = polyfit2 x y;
            a = fst coeffs_quad;
            y_pred_quad = map (polyval coeffs_quad) x;
            residuals = map2 (\<lambda>yi pi. yi - pi) y y_pred_quad;
            mse = np_true_divide (sum_list (map (\<lambda>r. r\<^sup>2) residuals)) (n - 3);
            p_value =
              (case linalg_inv (XtX x) of
                 Inl e \<Rightarrow> Fin 1.0
               | Inr XtX_inv \<Rightarrow>
                   let se_a = np_sqrt (np_multiply mse (fst (fst XtX_inv))) in
                   if np_greater se_a 0 then
                     let t_stat = np_abs_ratio a se_a in
                     np_multiply (t_sf t_stat (n - 3)) 2
                   else Fin 1.0);
            quadratic = np_less p_value p_value_threshold;
            model_type = (if quadratic then QUADRATIC else LINEAR);
            coeffs = (if quadratic then coeffs_quad
                      else (0.0, fst coeffs_linear, snd coeffs_linear));
            y_pred = map (polyval coeffs) x;
            ss_res = sum_list (map (\<lambda>r. r\<^sup>2) (map2 (\<lambda>yi pi. yi - pi) y y_pred));
            ss_tot = sum_list (map (\<lambda>yi. (yi - np_mean y)\<^sup>2) y);
            r_squared = (if ss_tot > 0 then 1 - ss_res / ss_tot else 0.0)
        in Inr \<lparr>coeffs = coeffs, model_type = model_type, r_squared = r_squared,
                p_value = p_value, mse = mse\<rparr>)"

section \<open>Theorems\<close>

subsection \<open>Auxiliary facts about boolean indexing\<close>

lemma select_mask_zip:
  assumes "length xs = length ys"
  shows "zip (select_mask xs (map P ys)) (select_mask ys (map P ys))
           = filter (\<lambda>(a, b). P b) (zip xs ys)"
  using assms by (induction xs ys rule: list_induct2) (simp_all add: select_mask_def)

lemma select_mask_length:
  assumes "length xs = length ys"
  shows "length (select_mask xs (map P ys)) = length (select_mask ys (map P ys))"
  using assms by (induction xs ys rule: list_induct2) (simp_all add: select_mask_def)

subsection \<open>Auxiliary facts about the solver\<close>

lemma quad_root_plus:
  fixes a b c :: real
  assumes "a \<noteq> 0" "b\<^sup>2 - 4 * a * c \<ge> 0"
  shows "a * ((- b + sqrt (b\<^sup>2 - 4 * a * c)) / (2 * a))\<^sup>2 + b * ((- b + sqrt (b\<^sup>2 - 4 * a * c)) / (2 * a)) + c = 0"
proof -
  define s where "s = sqrt (b\<^sup>2 - 4 * a * c)"
  have s2: "s * s = b * b - 4 * a * c" using assms(2) by (simp add: s_def power2_eq_square)
  have "4 * a * (a * ((- b + s) / (2 * a))\<^sup>2 + b * ((- b + s) / (2 * a)) + c) = (s * s - (b * b - 4 * a * c))"
    using assms(1) by (simp add: field_simps power2_eq_square)
  then have "4 * a * (a * ((- b + s) / (2 * a))\<^sup>2 + b * ((- b + s) / (2 * a)) + c) = 0"
    using s2 by simp
  then show ?thesis using assms(1) unfolding s_def by simp
qed

lemma quad_root_minus:
  fixes a b c :: real
  assumes "a \<noteq> 0" "b\<^sup>2 - 4 * a * c \<ge> 0"
  shows "a * ((- b - sqrt (b\<^sup>2 - 4 * a * c)) / (2 * a))\<^sup>2 + b * ((- b - sqrt (b\<^sup>2 - 4 * a * c)) / (2 * a)) + c = 0"
proof -
  define s where "s = sqrt (b\<^sup>2 - 4 * a * c)"
  have s2: "s * s = b * b - 4 * a * c" using assms(2) by (simp add: s_def power2_eq_square)
  have "4 * a * (a * ((- b - s) / (2 * a))\<^sup>2 + b * ((- b - s) / (2 * a)) + c) = (s * s - (b * b - 4 * a * c))"
    using assms(1) by (simp add: field_simps power2_eq_square)
  then have "4 * a * (a * ((- b - s) / (2 * a))\<^sup>2 + b * ((- b - s) / (2 * a)) + c) = 0"
    using s2 by simp
  then show ?thesis using assms(1) unfolding s_def by simp
qed

lemma py_int_bounds:
  assumes "v > 0"
  shows "real_of_int (py_int v) \<le> v \<and> v < real_of_int (py_int v) + 1 \<and> py_int v \<ge> 0"
  using assms by (simp add: py_int_def)

lemma py_int_zero_iff:
  assumes "v > 0"
  shows "(py_int v = 0) = (v < 1)"
  using assms by (auto simp add: py_int_def floor_eq_iff)

lemma solve_linear_eq:
  assumes "\<bar>a\<bar> < 1 / 10 ^ 6"
  shows "solve_for_threshold (a, b, c) T d =
     (if \<bar>b\<bar> < 1 / 10 ^ 6 then None
      else if b < 0 then None
      else if (T - c) / b - real_of_int d > 0 then Some (py_int ((T - c) / b - real_of_int d))
      else None)"
  using assms by (simp add: solve_for_threshold_def Let_def minus_divide_left [symmetric])

lemma solve_quadratic_eq:
  assumes "\<not> \<bar>a\<bar> < 1 / 10 ^ 6"
  shows "solve_for_threshold (a, b, c) T d =
     (if b\<^sup>2 - 4 * a * (c - T) < 0 then None
      else if real_of_int d < (- b + sqrt (b\<^sup>2 - 4 * a * (c - T))) / (2 * a)
            \<and> real_of_int d < (- b - sqrt (b\<^sup>2 - 4 * a * (c - T))) / (2 * a)
        then Some (py_int (min ((- b + sqrt (b\<^sup>2 - 4 * a * (c - T))) / (2 * a))
                               ((- b - sqrt (b\<^sup>2 - 4 * a * (c - T))) / (2 * a)) - real_of_int d))
      else if real_of_int d < (- b + sqrt (b\<^sup>2 - 4 * a * (c - T))) / (2 * a)
        then Some (py_int ((- b + sqrt (b\<^sup>2 - 4 * a * (c - T))) / (2 * a) - real_of_int d))
      else if real_of_int d < (- b - sqrt (b\<^sup>2 - 4 * a * (c - T))) / (2 * a)
        then Some (py_int ((- b - sqrt (b\<^sup>2 - 4 * a * (c - T))) / (2 * a) - real_of_int d))
      else None)"
  using assms by (simp add: solve_for_threshold_def Let_def min_def)

text \<open>
  C7. The confidence level is HIGH with multiplier 1.0 exactly when
  \<open>r_squared \<ge> r_high\<close> and \<open>n \<ge> 21\<close>; failing that it is MODERATE with
  multiplier 0.8 exactly when \<open>r_squared \<ge> r_moderate\<close> and \<open>n \<ge> min_days\<close>;
  failing both it is LOW with multiplier 0.5. With \<open>r_squared\<close> equal to
  \<open>r_high\<close>, 21 samples classify HIGH and 20 samples do not.
\<close>

theorem confidence_classification_correct:
  fixes r_high r_moderate r_squared :: real and min_days n :: nat
  shows "(let res = confidence_classification r_high r_moderate min_days r_squared n;
              hi = (r_squared \<ge> r_high \<and> n \<ge> 21);
              mo = (r_squared \<ge> r_moderate \<and> n \<ge> min_days)
          in (res = (HIGH, 1.0)) = hi
           \<and> (res = (MODERATE, 0.8)) = (\<not> hi \<and> mo)
           \<and> (res = (LOW, 0.5)) = (\<not> hi \<and> \<not> mo)
           \<and> (fst res = HIGH) = hi
           \<and> (fst res = MODERATE) = (\<not> hi \<and> mo)
           \<and> (fst res = LOW) = (\<not> hi \<and> \<not> mo))
         \<and> confidence_classification r_high r_moderate min_days r_high 21 = (HIGH, 1.0)
         \<and> fst (confidence_classification r_high r_moderate min_days r_high 20) \<noteq> HIGH"
  by (simp add: confidence_classification_def Let_def)

theorem confidence_classification_witness:
  "confidence_classification 0.85 0.70 14 0.85 21 = (HIGH, 1.0)
   \<and> confidence_classification 0.85 0.70 14 0.85 20 = (MODERATE, 0.8)
   \<and> confidence_classification 0.85 0.70 14 0.60 30 = (LOW, 0.5)"
  using confidence_classification_correct [of "0.85" "0.70" 14 "0.85" 21]
        confidence_classification_correct [of "0.85" "0.70" 14 "0.85" 20]
        confidence_classification_correct [of "0.85" "0.70" 14 "0.60" 30]
  by (simp add: Let_def)

text \<open>
  C5, evaluated where the solver reports a crossing in less than one day: with the
  adjusted model \<open>5\<cdot>x\<close>, threshold 2 and current day 0 the solver returns the day
  count 0, which is not \<open>None\<close> and is below the urgent threshold 15, and the
  priority classification yields LOW.
\<close>

theorem priority_zero_days_is_low:
  "solve_for_threshold (0, 5, 0) 2 0 = Some 0
   \<and> priority_classification 15 30 60 (solve_for_threshold (0, 5, 0) 2 0) = PRIO_LOW
   \<and> priority_classification 15 30 60 (Some 1) = URGENT"
  by (simp add: solve_for_threshold_def priority_classification_def truthy_def py_int_def)

text \<open>
  C4. In the linear branch (\<open>|a| < 1e-6\<close>) a flat model (\<open>|b| < 1e-6\<close>) and a
  declining model (\<open>b < 0\<close>) have no solution; otherwise the solver returns
  \<open>(T - c) / b - d\<close> truncated to an integer when that quantity is positive and
  \<open>None\<close> when it is not. For a flat or declining linear model the predictions
  for 80, 90 and 100 percent of any capacity are all \<open>None\<close>.
\<close>

theorem solve_linear_case:
  fixes a b c T cap :: real and d :: int
  assumes "\<bar>a\<bar> < 1 / 10 ^ 6"
  shows "solve_for_threshold (a, b, c) T d =
           (if \<bar>b\<bar> < 1 / 10 ^ 6 then None
            else if b < 0 then None
            else if (T - c) / b - real_of_int d > 0
              then Some (py_int ((T - c) / b - real_of_int d))
            else None)
         \<and> (\<bar>b\<bar> < 1 / 10 ^ 6 \<or> b < 0 \<longrightarrow>
              solve_for_threshold (a, b, c) (cap * 0.80) d = None
            \<and> solve_for_threshold (a, b, c) (cap * 0.90) d = None
            \<and> solve_for_threshold (a, b, c) (cap * 1.00) d = None)"
  using assms by (simp add: solve_for_threshold_def Let_def minus_divide_left [symmetric])

theorem solve_linear_case_witness:
  "solve_for_threshold (0, 5, 400) 800 60 = Some 20
   \<and> solve_for_threshold (0, 0, 500) (1000 * 0.80) 60 = None
   \<and> solve_for_threshold (0, - 5, 900) (1000 * 0.90) 60 = None"
  using solve_linear_case [of 0 5 400 800 60 1000]
        solve_linear_case [of 0 0 500 800 60 1000]
        solve_linear_case [of 0 "- 5" 900 800 60 1000]
  by (simp add: py_int_def)

text \<open>
  The claim as worded, without the truncation, fails: for the model \<open>2\<cdot>x\<close>,
  threshold 5 and current day 0 the solver returns 2, not \<open>(5 - 0) / 2 - 0\<close>.
\<close>

theorem solve_linear_untruncated_counterexample:
  "solve_for_threshold (0, 2, 0) 5 0 = Some 2
   \<and> real_of_int 2 \<noteq> (5 - 0) / 2 - real_of_int 0"
  by (simp add: solve_for_threshold_def py_int_def)

text \<open>
  C2. In the quadratic branch (\<open>|a| \<ge> 1e-6\<close>) the solver computes the
  discriminant \<open>b\<^sup>2 - 4a(c - T)\<close>. A negative discriminant gives \<open>None\<close>. Otherwise,
  when neither root is strictly greater than the current day the result is
  \<open>None\<close>, and when some root is, the result is the smallest such root minus the
  current day, truncated to an integer. The positivity test is made on the
  difference before truncation, which is strictly positive for every qualifying
  root: a day count is then always returned, it is never negative, and it is 0
  exactly when the root is less than one day ahead.
\<close>

theorem solve_quadratic_case:
  fixes a b c T :: real and d :: int
  assumes "\<bar>a\<bar> \<ge> 1 / 10 ^ 6"
  shows "(let disc = b\<^sup>2 - 4 * a * (c - T);
              x1 = (- b + sqrt disc) / (2 * a);
              x2 = (- b - sqrt disc) / (2 * a);
              r = solve_for_threshold (a, b, c) T d
          in (disc < 0 \<longrightarrow> r = None)
           \<and> (0 \<le> disc \<and> x1 \<le> real_of_int d \<and> x2 \<le> real_of_int d \<longrightarrow> r = None)
           \<and> (0 \<le> disc \<and> (real_of_int d < x1 \<or> real_of_int d < x2) \<longrightarrow>
                (\<exists>x \<in> {x1, x2}. real_of_int d < x
                   \<and> (\<forall>x' \<in> {x1, x2}. real_of_int d < x' \<longrightarrow> x \<le> x')
                   \<and> r = Some (py_int (x - real_of_int d))
                   \<and> 0 \<le> py_int (x - real_of_int d)
                   \<and> (py_int (x - real_of_int d) = 0) = (x - real_of_int d < 1))))"
proof -
  have nn: "0 \<le> py_int (x - real_of_int d)" if "real_of_int d < x" for x
    using py_int_bounds [of "x - real_of_int d"] that by simp
  have z: "(py_int (x - real_of_int d) = 0) = (x - real_of_int d < 1)"
    if "real_of_int d < x" for x
    using py_int_zero_iff [of "x - real_of_int d"] that by simp
  show ?thesis
    using assms
    by (auto simp add: solve_for_threshold_def Let_def min_def nn z)
qed

theorem solve_quadratic_case_witness:
  "solve_for_threshold (1, 0, 0) 16 3 = Some 1
   \<and> solve_for_threshold (1, 0, 20) 16 3 = None
   \<and> solve_for_threshold (1, 0, 0) 16 4 = None
   \<and> solve_for_threshold (1, 0, 0) (25 / 4) 2 = Some 0"
  using solve_quadratic_case [of 1 0 0 16 3]
        solve_quadratic_case [of 1 0 20 16 3]
        solve_quadratic_case [of 1 0 0 16 4]
        solve_quadratic_case [of 1 0 0 "25 / 4" 2]
  by (simp add: Let_def py_int_def)

text \<open>
  Read of the truncated day count, the last clause of the claim (\<open>None\<close> when the
  result is not strictly positive) fails: for the model \<open>x\<^sup>2\<close>, threshold
  \<open>49/4\<close> and current day 3 the qualifying root is \<open>7/2\<close>, half a day ahead, and
  the solver returns the day count 0, not \<open>None\<close>.
\<close>

theorem solve_quadratic_zero_days_counterexample:
  "solve_for_threshold (1, 0, 0) (49 / 4) 3 = Some 0 \<and> \<not> (0 :: int) > 0"
  by (simp add: solve_for_threshold_def Let_def py_int_def)

text \<open>
  C3. Whenever the solver returns a day count \<open>k\<close>, the model it solved (the
  linear part \<open>b\<cdot>x + c\<close> in the linear branch, the full quadratic otherwise)
  takes the value \<open>T\<close> exactly at some real day \<open>x\<close> after the current day \<open>d\<close>
  with \<open>d + k \<le> x < d + k + 1\<close>: the returned count is that crossing
  truncated to whole days.
\<close>

theorem solve_crossing_within_day:
  fixes a b c T :: real and d k :: int
  assumes "solve_for_threshold (a, b, c) T d = Some k"
  shows "\<exists>x. real_of_int d < x
            \<and> real_of_int (d + k) \<le> x \<and> x < real_of_int (d + k) + 1
            \<and> polyval (if \<bar>a\<bar> < 1 / 10 ^ 6 then (0, b, c) else (a, b, c)) x = T"
proof -
  have "\<exists>x. x - real_of_int d > 0 \<and> k = py_int (x - real_of_int d)
          \<and> polyval (if \<bar>a\<bar> < 1 / 10 ^ 6 then (0, b, c) else (a, b, c)) x = T"
  proof (cases "\<bar>a\<bar> < 1 / 10 ^ 6")
    case True
    define x where "x = (T - c) / b"
    from assms have "b \<noteq> 0 \<and> x - real_of_int d > 0 \<and> k = py_int (x - real_of_int d)"
      unfolding solve_linear_eq [OF True] x_def by (auto split: if_splits)
    moreover from this have "polyval (0, b, c) x = T" by (simp add: polyval_def x_def)
    ultimately show ?thesis using True by auto
  next
    case False
    define disc where "disc = b\<^sup>2 - 4 * a * (c - T)"
    define x1 where "x1 = (- b + sqrt disc) / (2 * a)"
    define x2 where "x2 = (- b - sqrt disc) / (2 * a)"
    from False have a: "a \<noteq> 0" by auto
    from assms have *: "0 \<le> disc \<and> (\<exists>x. (x = x1 \<or> x = x2) \<and> x - real_of_int d > 0
        \<and> k = py_int (x - real_of_int d))"
      unfolding solve_quadratic_eq [OF False] disc_def [symmetric] x1_def [symmetric]
        x2_def [symmetric]
      by (auto simp add: min_def split: if_splits)
    then obtain x where x: "x = x1 \<or> x = x2" and pos: "x - real_of_int d > 0"
      and k: "k = py_int (x - real_of_int d)" by blast
    from * have disc: "0 \<le> b\<^sup>2 - 4 * a * (c - T)" by (simp add: disc_def)
    have "a * x1\<^sup>2 + b * x1 + (c - T) = 0"
      unfolding x1_def disc_def by (rule quad_root_plus [OF a disc])
    moreover have "a * x2\<^sup>2 + b * x2 + (c - T) = 0"
      unfolding x2_def disc_def by (rule quad_root_minus [OF a disc])
    ultimately have "a * x\<^sup>2 + b * x + (c - T) = 0" using x by blast
    then have "polyval (a, b, c) x = T" by (simp add: polyval_def)
    then show ?thesis using pos k False by auto
  qed
  then obtain x where pos: "x - real_of_int d > 0" and k: "k = py_int (x - real_of_int d)"
    and p: "polyval (if \<bar>a\<bar> < 1 / 10 ^ 6 then (0, b, c) else (a, b, c)) x = T" by blast
  from py_int_bounds [OF pos] k
  have "real_of_int (d + k) \<le> x" "x < real_of_int (d + k) + 1" by simp_all
  with pos p show ?thesis by (intro exI [of _ x]) simp
qed

theorem solve_crossing_within_day_witness:
  "solve_for_threshold (0, 1000, 0) 1999 0 = Some 1
   \<and> (\<exists>x. real_of_int 0 < x \<and> real_of_int (0 + 1) \<le> x \<and> x < real_of_int (0 + 1) + 1
          \<and> polyval (0, 1000, 0) x = 1999)"
proof -
  have h: "solve_for_threshold (0, 1000, 0) 1999 0 = Some 1"
    by (simp add: solve_for_threshold_def py_int_def)
  from solve_crossing_within_day [OF h] h show ?thesis by simp
qed

text \<open>
  Evaluated at \<open>d + k\<close> itself the model need not be near \<open>T\<close>: with the model
  \<open>1000\<cdot>x\<close>, threshold 1999 and current day 0 the solver returns 1, where the
  model is 1000, off the threshold by 999.
\<close>

theorem solve_round_trip_counterexample:
  "solve_for_threshold (0, 1000, 0) 1999 0 = Some 1
   \<and> \<bar>polyval (0, 1000, 0) (real_of_int (0 + 1)) - 1999\<bar> = 999"
  by (simp add: solve_for_threshold_def py_int_def polyval_def)

text \<open>
  C10. When \<open>remove_outliers\<close> removed at least one point, the mask the
  orchestrator recomputes (\<open>|y - mean(y)| \<le> threshold\<cdot>std(y)\<close>) is pointwise the
  negation of the outlier mask computed inside \<open>remove_outliers\<close>; for \<open>x\<close> and
  \<open>y\<close> of equal length the filtered \<open>x\<close> and the cleaned \<open>y\<close> have equal length
  and pair up exactly the \<open>(x, y)\<close> points that were kept.
\<close>

theorem outlier_masks_complementary:
  fixes x :: "int list" and y :: "real list" and thr :: real
  assumes "length x = length y" and "snd (remove_outliers y thr) > 0"
  shows "map (\<lambda>v. \<bar>v - np_mean y\<bar> \<le> thr * np_std y) y
           = map Not (map (\<lambda>v. \<bar>v - np_mean y\<bar> > thr * np_std y) y)
         \<and> (\<exists>x' y'. remove_outliers_step thr x y = Inr (x', y', snd (remove_outliers y thr))
              \<and> y' = fst (remove_outliers y thr)
              \<and> length x' = length y'
              \<and> zip x' y' = filter (\<lambda>(xi, yi). \<bar>yi - np_mean y\<bar> \<le> thr * np_std y) (zip x y))"
proof -
  let ?keep = "\<lambda>v. \<bar>v - np_mean y\<bar> \<le> thr * np_std y"
  let ?out = "\<lambda>v. \<bar>v - np_mean y\<bar> > thr * np_std y"
  have masks: "map ?keep y = map Not (map ?out y)" by (simp add: not_less)
  from assms(2) have clean: "fst (remove_outliers y thr) = select_mask y (map ?keep y)"
    by (auto simp add: remove_outliers_def Let_def not_less o_def split: if_splits)
  from assms have step: "remove_outliers_step thr x y
      = Inr (select_mask x (map ?keep y), fst (remove_outliers y thr), snd (remove_outliers y thr))"
    by (cases "remove_outliers y thr") (simp add: remove_outliers_step_def np_bool_index_def Let_def)
  show ?thesis
    using masks step clean select_mask_length [OF assms(1), of ?keep]
      select_mask_zip [OF assms(1), of ?keep]
    by simp
qed

theorem outlier_masks_complementary_witness:
  "remove_outliers [0, 0, 0, 0, 5] (3 / 2) = ([0, 0, 0, 0], 1)
   \<and> (\<exists>x' y'. remove_outliers_step (3 / 2) [0, 1, 2, 3, 4] [0, 0, 0, 0, 5] = Inr (x', y', 1)
          \<and> length x' = length y'
          \<and> zip x' y' = [(0, 0), (1, 0), (2, 0), (3, 0)])"
proof -
  have m: "np_mean [0, 0, 0, 0, 5] = 1" by (simp add: np_mean_def)
  have s: "np_std [0, 0, 0, 0, 5] = 2" by (simp add: np_std_def m) (simp add: np_mean_def)
  have r: "remove_outliers [0, 0, 0, 0, 5] (3 / 2) = ([0, 0, 0, 0], 1)"
    by (simp add: remove_outliers_def m s select_mask_def)
  have h1: "length [0, 1, 2, 3, 4 :: int] = length [0, 0, 0, 0, 5 :: real]" by simp
  have h2: "snd (remove_outliers [0, 0, 0, 0, 5] (3 / 2)) > 0" by (simp add: r)
  from outlier_masks_complementary [OF h1 h2] r show ?thesis
    by (auto simp add: m s)
qed

text \<open>
  C9. With fewer than 10 observations the classifier returns (UNKNOWN, 1.0).
  Otherwise, with the difference between the mean of the second half and the mean of
  the first half (split at \<open>len div 2\<close>): a difference above the improving threshold
  yields IMPROVING with the configured improving adjustment; failing that, a
  difference below the degrading threshold yields DEGRADING with the configured
  degrading adjustment; failing both the result is (STABLE, 1.0). The returned
  factor is below 1.0 for IMPROVING exactly when the configured improving
  adjustment is, and above 1.0 for DEGRADING exactly when the configured degrading
  adjustment is.
\<close>

theorem dedup_trend_classification:
  fixes it dt ia da :: real and xs :: "real list"
  shows "(let diff = np_mean (drop (length xs div 2) xs) - np_mean (take (length xs div 2) xs);
              r = analyze_dedup_trend it dt ia da xs
          in (length xs < 10 \<longrightarrow> r = (UNKNOWN, 1.0))
           \<and> (10 \<le> length xs \<and> diff > it \<longrightarrow> r = (IMPROVING, ia))
           \<and> (10 \<le> length xs \<and> \<not> diff > it \<and> diff < dt \<longrightarrow> r = (DEGRADING, da))
           \<and> (10 \<le> length xs \<and> \<not> diff > it \<and> \<not> diff < dt \<longrightarrow> r = (STABLE, 1.0))
           \<and> (fst r = IMPROVING \<longrightarrow> (snd r < 1.0) = (ia < 1.0))
           \<and> (fst r = DEGRADING \<longrightarrow> (snd r > 1.0) = (da > 1.0)))"
  by (auto simp add: analyze_dedup_trend_def Let_def)

theorem dedup_trend_classification_witness:
  "analyze_dedup_trend (1 / 2) (- 1 / 2) (9 / 10) (11 / 10) [1, 1, 1, 1, 1, 3, 3, 3, 3, 3]
     = (IMPROVING, 9 / 10)
   \<and> analyze_dedup_trend (1 / 2) (- 1 / 2) (9 / 10) (11 / 10) [3, 3, 3, 3, 3, 1, 1, 1, 1, 1]
     = (DEGRADING, 11 / 10)
   \<and> analyze_dedup_trend (1 / 2) (- 1 / 2) (9 / 10) (11 / 10) [2, 2, 2, 2, 2, 2, 2, 2, 2, 2]
     = (STABLE, 1)
   \<and> analyze_dedup_trend (1 / 2) (- 1 / 2) (9 / 10) (11 / 10) [1, 1, 1, 3, 3, 3]
     = (UNKNOWN, 1)"
  using dedup_trend_classification [of "[1, 1, 1, 1, 1, 3, 3, 3, 3, 3]" "1 / 2" "- 1 / 2" "9 / 10" "11 / 10"]
        dedup_trend_classification [of "[3, 3, 3, 3, 3, 1, 1, 1, 1, 1]" "1 / 2" "- 1 / 2" "9 / 10" "11 / 10"]
        dedup_trend_classification [of "[2, 2, 2, 2, 2, 2, 2, 2, 2, 2]" "1 / 2" "- 1 / 2" "9 / 10" "11 / 10"]
        dedup_trend_classification [of "[1, 1, 1, 3, 3, 3]" "1 / 2" "- 1 / 2" "9 / 10" "11 / 10"]
  by (simp add: Let_def np_mean_def)

text \<open>
  The factor bounds are not a property of the function: it returns the configured
  constant unchecked. With an improving adjustment of 2 the result is IMPROVING with
  factor 2, which is not below 1.0.
\<close>

theorem dedup_trend_factor_counterexample:
  "analyze_dedup_trend (1 / 2) (- 1 / 2) 2 (11 / 10) [1, 1, 1, 1, 1, 3, 3, 3, 3, 3]
     = (IMPROVING, 2)
   \<and> \<not> (2 :: real) < 1.0"
  by (simp add: analyze_dedup_trend_def Let_def np_mean_def)






text \<open>
  C6, evaluated on a gap longer than \<open>max_gap_days\<close>: with \<open>max_gap_days = 2\<close> a
  3-day gap between 10 and 50 is filled completely (3 days interpolated), and of a
  5-day gap between 0 and 60 the two days next to each end are filled and only the
  middle day stays missing (4 days interpolated).
\<close>

theorem interpolate_gaps_fills_long_gaps:
  "interpolate_gaps [Some 10, None, None, None, Some 50] 2
     = Inr ([Some 10, Some 20, Some 30, Some 40, Some 50], 3)
   \<and> interpolate_gaps [Some 0, None, None, None, None, None, Some 60] 2
     = Inr ([Some 0, Some 10, Some 20, None, Some 40, Some 50, Some 60], 4)
   \<and> dropna [Some 0, Some 10, Some 20, None, Some 40, Some 50, Some 60]
     = [0, 10, 20, 40, 50, 60]"
  by code_simp

end
